theory Spec2Isabelle
  imports Complex_Main
begin

section \<open>Data model\<close>

text \<open>
  The analysis code of \<^verbatim>\<open>src/app.py\<close> works on Python floats. They are modelled as
  \<^typ>\<open>real\<close>: rounding, infinities and NaN are outside this model, and every statement below
  is a statement about the program computed in exact arithmetic.

  A landmark is the dictionary \<^verbatim>\<open>{'x', 'y', 'z', 'visibility'}\<close> built by the endpoint; the
  fields carry the prefix \<open>lm_\<close> because \<open>x\<close>, \<open>y\<close> and \<open>z\<close> as constants would capture the
  variables of every later statement.
\<close>

record landmark =
  lm_x :: real
  lm_y :: real
  lm_z :: real
  lm_visibility :: real

type_synonym frame_landmarks = "landmark list"

type_synonym landmark_trace = "frame_landmarks list"

text \<open>
  Exceptions are values. \<open>External\<close> stands for an exception raised inside a library call
  (OpenCV or the pose landmarker), with its message.
\<close>

datatype error = IndexError | ZeroDivisionError | External string

text \<open>
  Reading \<^verbatim>\<open>xs[i]\<close>: indices from 0 upwards count from the front, indices from -1 downwards
  from the back, and anything beyond either end raises \<^verbatim>\<open>IndexError\<close>.
\<close>

definition getitem :: "'a list \<Rightarrow> int \<Rightarrow> error + 'a" where
  "getitem xs i =
     (if 0 \<le> i \<and> i < int (length xs) then Inr (xs ! nat i)
      else if i < 0 \<and> - int (length xs) \<le> i then Inr (xs ! nat (int (length xs) + i))
      else Inl IndexError)"

section \<open>Number formatting\<close>

text \<open>\<^verbatim>\<open>int(v)\<close> on a float truncates towards zero.\<close>

definition py_int :: "real \<Rightarrow> int" where
  "py_int r = (if 0 \<le> r then \<lfloor>r\<rfloor> else \<lceil>r\<rceil>)"

definition digit_char :: "nat \<Rightarrow> char" where
  "digit_char d = ''0123456789'' ! d"

function str_nat :: "nat \<Rightarrow> string" where
  "str_nat n = (if n < 10 then [digit_char n] else str_nat (n div 10) @ [digit_char (n mod 10)])"
  by pat_completeness auto
termination
  by (relation "measure (\<lambda>n. n)") auto

declare str_nat.simps [simp del]

text \<open>The decimal rendering an f-string gives a Python \<^verbatim>\<open>int\<close>.\<close>

definition str_int :: "int \<Rightarrow> string" where
  "str_int i = (if i < 0 then CHR ''-'' # str_nat (nat (- i)) else str_nat (nat i))"

section \<open>The elbow angle\<close>

text \<open>
  \<^verbatim>\<open>np.arctan2(y, x)\<close> is a library function; it is modelled by its mathematical definition,
  the angle of the point \<open>(x, y)\<close> in \<open>(-\<pi>, \<pi>]\<close>, with \<open>arctan2 0 0 = 0\<close>.
\<close>

definition arctan2 :: "real \<Rightarrow> real \<Rightarrow> real" where
  "arctan2 v u =
     (if 0 < u then arctan (v / u)
      else if u < 0 then (if 0 \<le> v then arctan (v / u) + pi else arctan (v / u) - pi)
      else if 0 < v then pi / 2
      else if v < 0 then - (pi / 2)
      else 0)"

text \<open>A point is the two-element list \<^verbatim>\<open>[x, y]\<close> of the source, here a pair.\<close>

definition calculate_angle :: "real \<times> real \<Rightarrow> real \<times> real \<Rightarrow> real \<times> real \<Rightarrow> real" where
  "calculate_angle a b c =
     (let radians = arctan2 (snd c - snd b) (fst c - fst b) - arctan2 (snd a - snd b) (fst a - fst b);
          angle = \<bar>radians * 180 / pi\<bar>
      in if angle > 180 then 360 - angle else angle)"

section \<open>analyze_landmarks\<close>

text \<open>
  The loop of lines 69 to 77: the running minimum over the frames, started at 180 by the
  caller. A frame takes part when it is truthy (non-empty) and has more than 16 landmarks.
\<close>

fun min_elbow_angle_loop :: "landmark_trace \<Rightarrow> real \<Rightarrow> error + real" where
  "min_elbow_angle_loop [] min_elbow_angle = Inr min_elbow_angle"
| "min_elbow_angle_loop (frame_landmarks # rest) min_elbow_angle =
     (if frame_landmarks \<noteq> [] \<and> length frame_landmarks > 16 then
        (case getitem frame_landmarks 12 of Inl e \<Rightarrow> Inl e | Inr s \<Rightarrow>
        (case getitem frame_landmarks 14 of Inl e \<Rightarrow> Inl e | Inr b \<Rightarrow>
        (case getitem frame_landmarks 16 of Inl e \<Rightarrow> Inl e | Inr w \<Rightarrow>
           (let right_shoulder = (lm_x s, lm_y s);
                right_elbow = (lm_x b, lm_y b);
                right_wrist = (lm_x w, lm_y w);
                angle = calculate_angle right_shoulder right_elbow right_wrist
            in min_elbow_angle_loop rest
                 (if angle < min_elbow_angle then angle else min_elbow_angle)))))
      else min_elbow_angle_loop rest min_elbow_angle)"

definition msg_bent :: "real \<Rightarrow> string" where
  "msg_bent min_elbow_angle =
     ''Your arm is quite bent. The minimum elbow angle was '' @ str_int (py_int min_elbow_angle)
       @ [CHR 0xB0] @ ''. Try to keep the arm straighter for more power.''"

definition msg_good_extension :: string where
  "msg_good_extension = ''Good arm extension! Your elbow angle looks solid.''"

definition msg_no_elbow :: string where
  "msg_no_elbow = ''Could not determine elbow angle. Make sure your arm is visible.''"

definition msg_head_moving :: string where
  "msg_head_moving =
     ''You are moving your head vertically during the stroke. Try to keep your head still to improve balance and consistency.''"

definition msg_head_stable :: string where
  "msg_head_stable = ''Excellent head stability! Keeping your head still is key.''"

definition msg_no_head :: string where
  "msg_no_head =
     ''Could not determine head movement. Ensure you are visible at the start and end of the clip.''"

text \<open>Lines 79 to 84: the line the elbow metric appends.\<close>

definition elbow_feedback :: "real \<Rightarrow> string" where
  "elbow_feedback min_elbow_angle =
     (if min_elbow_angle < 90 then msg_bent min_elbow_angle
      else if min_elbow_angle \<noteq> 180 then msg_good_extension
      else msg_no_elbow)"

text \<open>
  Lines 88 to 101: the lines the head metric appends. The condition of line 88 is a chain of
  \<^verbatim>\<open>and\<close>, evaluated left to right and cut short at the first falsy operand, so the two
  endpoint frames are read only once the trace has more than one frame.
\<close>

definition head_feedback :: "landmark_trace \<Rightarrow> error + string list" where
  "head_feedback landmarks_per_frame =
     (if landmarks_per_frame \<noteq> [] \<and> length landmarks_per_frame > 1 then
        (case getitem landmarks_per_frame 0 of Inl e \<Rightarrow> Inl e | Inr first \<Rightarrow>
         if first = [] then Inr [] else
        (case getitem landmarks_per_frame (- 1) of Inl e \<Rightarrow> Inl e | Inr final \<Rightarrow>
         if final = [] then Inr [] else
         if length first > 0 \<and> length final > 0 then
           (case getitem first 0 of Inl e \<Rightarrow> Inl e | Inr n0 \<Rightarrow>
           (case getitem final 0 of Inl e \<Rightarrow> Inl e | Inr n1 \<Rightarrow>
              (let initial_nose_y = lm_y n0;
                   final_nose_y = lm_y n1;
                   movement = \<bar>initial_nose_y - final_nose_y\<bar>
               in if movement > 0.05 then Inr [msg_head_moving] else Inr [msg_head_stable])))
         else Inr [msg_no_head]))
      else Inr [])"

definition analyze_landmarks :: "landmark_trace \<Rightarrow> error + string list" where
  "analyze_landmarks landmarks_per_frame =
     (case min_elbow_angle_loop landmarks_per_frame 180 of Inl e \<Rightarrow> Inl e | Inr min_elbow_angle \<Rightarrow>
     (case head_feedback landmarks_per_frame of Inl e \<Rightarrow> Inl e | Inr head \<Rightarrow>
        Inr ([elbow_feedback min_elbow_angle] @ head)))"

text \<open>
  The angles the loop looks at, in frame order: one per frame with more than 16 landmarks,
  read at the indices 12 (shoulder), 14 (elbow) and 16 (wrist).
\<close>

definition elbow_angle :: "frame_landmarks \<Rightarrow> real" where
  "elbow_angle f =
     calculate_angle (lm_x (f ! 12), lm_y (f ! 12)) (lm_x (f ! 14), lm_y (f ! 14))
       (lm_x (f ! 16), lm_y (f ! 16))"

definition qualifying_angles :: "landmark_trace \<Rightarrow> real list" where
  "qualifying_angles tr = map elbow_angle (filter (\<lambda>f. length f > 16) tr)"

section \<open>The endpoint\<close>

text \<open>
  The model starts at the \<^verbatim>\<open>try\<close> of line 123, once the upload is saved. What OpenCV gives for
  the saved file is a parameter: whether the capture is open, the frame rate of the container
  metadata, and the frames \<^verbatim>\<open>cap.read()\<close> hands out before it reports the end.
  \<^verbatim>\<open>cv2.VideoCapture\<close> does not raise on a file it cannot open; it returns a capture whose
  \<^verbatim>\<open>isOpened()\<close> is false.
\<close>

record 'img capture =
  opened :: bool
  prop_fps :: real
  frames :: "'img list"

text \<open>
  The colour conversion and \<^verbatim>\<open>landmarker.detect_for_video\<close> are one parameter: from a frame
  and a timestamp to the detected poses (one landmark list per person), or an exception.
\<close>

type_synonym 'img detector = "'img \<Rightarrow> int \<Rightarrow> error + frame_landmarks list"

text \<open>Lines 125 to 128.\<close>

definition effective_fps :: "real \<Rightarrow> real" where
  "effective_fps fps = (if fps = 0 then 30 else fps)"

text \<open>Line 142; dividing by a zero float raises \<^verbatim>\<open>ZeroDivisionError\<close>.\<close>

definition frame_timestamp_ms :: "nat \<Rightarrow> real \<Rightarrow> error + int" where
  "frame_timestamp_ms frame_number fps =
     (if fps = 0 then Inl ZeroDivisionError
      else Inr (py_int ((real frame_number / fps) * 1000)))"

text \<open>
  The loop of lines 133 to 152 over the frames still to be read. Besides the trace it returns
  the timestamps handed to the detector, in call order; a call that raises has been made.
\<close>

fun frame_loop ::
  "'img detector \<Rightarrow> real \<Rightarrow> 'img list \<Rightarrow> nat \<Rightarrow> landmark_trace \<Rightarrow> int list
     \<Rightarrow> (error + landmark_trace) \<times> int list" where
  "frame_loop detect fps [] frame_number all_landmarks calls = (Inr all_landmarks, calls)"
| "frame_loop detect fps (frame # rest) frame_number all_landmarks calls =
     (case frame_timestamp_ms frame_number fps of
        Inl e \<Rightarrow> (Inl e, calls)
      | Inr frame_timestamp \<Rightarrow>
         (case detect frame frame_timestamp of
            Inl e \<Rightarrow> (Inl e, calls @ [frame_timestamp])
          | Inr pose_landmarks \<Rightarrow>
              frame_loop detect fps rest (frame_number + 1)
                (all_landmarks @ [case pose_landmarks of [] \<Rightarrow> [] | person # others \<Rightarrow> person])
                (calls @ [frame_timestamp])))"

datatype response = Success landmark_trace "string list" | Failure nat error


text \<open>
  What a request leaves behind: the response, whether \<^verbatim>\<open>cap.release()\<close> was called, whether
  the uploaded file was removed, and the timestamps the detector was called with.
\<close>

record outcome =
  response :: response
  cap_released :: bool
  file_removed :: bool
  detector_calls :: "int list"

text \<open>
  Lines 123 to 172. \<^verbatim>\<open>cap.release()\<close> is the statement after the loop, inside the
  \<^verbatim>\<open>try\<close>; the \<^verbatim>\<open>except\<close> clause answers 500 with the message; the \<^verbatim>\<open>finally\<close> clause
  removes the file.
\<close>

definition analyze_video_endpoint :: "'img detector \<Rightarrow> 'img capture \<Rightarrow> outcome" where
  "analyze_video_endpoint detect cap =
     (let fps = effective_fps (prop_fps cap);
          run = frame_loop detect fps (if opened cap then frames cap else []) 0 [] []
      in case fst run of
           Inl e \<Rightarrow>
             \<lparr>response = Failure 500 e, cap_released = False, file_removed = True,
              detector_calls = snd run\<rparr>
         | Inr all_landmarks \<Rightarrow>
             (case analyze_landmarks all_landmarks of
                Inl e \<Rightarrow>
                  \<lparr>response = Failure 500 e, cap_released = True, file_removed = True,
                   detector_calls = snd run\<rparr>
              | Inr feedback \<Rightarrow>
                  \<lparr>response = Success all_landmarks feedback, cap_released = True,
                   file_removed = True, detector_calls = snd run\<rparr>))"

text \<open>
  Poses used as concrete inputs: 33 landmarks, the nose at index 0 and the right arm at the
  indices 12, 14 and 16; the other entries repeat the nose, no metric reads them.
\<close>

definition lm :: "real \<Rightarrow> real \<Rightarrow> landmark" where
  "lm u v = \<lparr>lm_x = u, lm_y = v, lm_z = 0, lm_visibility = 1\<rparr>"

definition pose33 :: "landmark \<Rightarrow> landmark \<Rightarrow> landmark \<Rightarrow> landmark \<Rightarrow> frame_landmarks" where
  "pose33 nose shoulder elbow wrist =
     [nose, nose, nose, nose, nose, nose, nose, nose, nose, nose, nose, nose,
      shoulder, nose, elbow, nose, wrist,
      nose, nose, nose, nose, nose, nose, nose, nose, nose, nose, nose, nose, nose, nose, nose,
      nose]"

text \<open>The arm fully extended along a vertical line, and the arm bent to 45 degrees.\<close>

definition straight_pose :: frame_landmarks where
  "straight_pose = pose33 (lm (1/2) (1/10)) (lm (1/2) (1/4)) (lm (1/2) (1/2)) (lm (1/2) (3/4))"

definition bent_pose :: frame_landmarks where
  "bent_pose = pose33 (lm (1/2) (1/10)) (lm (3/4) (1/2)) (lm (1/2) (1/2)) (lm (3/4) (3/4))"


section \<open>Indexing\<close>

lemma getitem_nat: "n < length xs \<Longrightarrow> getitem xs (int n) = Inr (xs ! n)"
  by (simp add: getitem_def)

lemma getitem_12: "16 < length xs \<Longrightarrow> getitem xs 12 = Inr (xs ! 12)"
  using getitem_nat [of 12 xs] by simp
lemma getitem_14: "16 < length xs \<Longrightarrow> getitem xs 14 = Inr (xs ! 14)"
  using getitem_nat [of 14 xs] by simp
lemma getitem_16: "16 < length xs \<Longrightarrow> getitem xs 16 = Inr (xs ! 16)"
  using getitem_nat [of 16 xs] by simp
lemma getitem_0: "xs \<noteq> [] \<Longrightarrow> getitem xs 0 = Inr (hd xs)"
  by (cases xs) (simp_all add: getitem_def)

lemma getitem_last: "xs \<noteq> [] \<Longrightarrow> getitem xs (- 1) = Inr (last xs)"
  by (cases xs rule: rev_cases) (simp_all add: getitem_def nth_append)

section \<open>The angle is symmetric and bounded\<close>

lemma arctan2_bounds: "- pi < arctan2 v u \<and> arctan2 v u \<le> pi"
proof -
  have lo: "- (pi / 2) < arctan (v / u)" and hi: "arctan (v / u) < pi / 2"
    by (rule arctan_lbound, rule arctan_ubound)
  have pos: "0 < pi" by (rule pi_gt_zero)
  consider "0 < u" | "u < 0" "0 \<le> v" | "u < 0" "v < 0" | "u = 0" by linarith
  then show ?thesis
  proof cases
    case 1
    then have "arctan2 v u = arctan (v / u)" by (simp add: arctan2_def)
    with lo hi pos show ?thesis by linarith
  next
    case 2
    then have "v / u \<le> 0" by (simp add: divide_nonneg_neg)
    then have le: "arctan (v / u) \<le> 0" by (simp add: arctan_le_zero_iff)
    from 2 have "arctan2 v u = arctan (v / u) + pi" by (simp add: arctan2_def)
    with le lo pos show ?thesis by linarith
  next
    case 3
    then have "0 < v / u" by (simp add: divide_neg_neg)
    then have gt: "0 < arctan (v / u)" by (simp add: zero_less_arctan_iff)
    from 3 have "arctan2 v u = arctan (v / u) - pi" by (simp add: arctan2_def)
    with gt hi pos show ?thesis by linarith
  next
    case 4
    then have "arctan2 v u = pi / 2 \<or> arctan2 v u = - (pi / 2) \<or> arctan2 v u = 0"
      by (simp add: arctan2_def)
    with pos show ?thesis by linarith
  qed
qed

lemma degrees_bound: "\<bar>r\<bar> \<le> 2 * pi \<Longrightarrow> \<bar>r * 180 / pi\<bar> \<le> 360"
proof -
  assume a: "\<bar>r\<bar> \<le> 2 * pi"
  have pos: "0 < pi" by (rule pi_gt_zero)
  have "\<bar>r * 180 / pi\<bar> = \<bar>r\<bar> * 180 / pi" using pos by (simp add: abs_mult)
  also have "\<dots> \<le> (2 * pi) * 180 / pi"
    using a pos by (intro divide_right_mono mult_right_mono) simp_all
  also have "\<dots> = 360" using pos by simp
  finally show ?thesis .
qed

lemma calculate_angle_range: "0 \<le> calculate_angle a b c \<and> calculate_angle a b c \<le> 180"
proof -
  define p where "p = arctan2 (snd c - snd b) (fst c - fst b)"
  define q where "q = arctan2 (snd a - snd b) (fst a - fst b)"
  have bp: "- pi < p" "p \<le> pi" and bq: "- pi < q" "q \<le> pi"
    using arctan2_bounds by (simp_all add: p_def q_def)
  have "\<bar>p - q\<bar> \<le> 2 * pi" using bp bq by linarith
  then have "\<bar>(p - q) * 180 / pi\<bar> \<le> 360" by (rule degrees_bound)
  then show ?thesis
    unfolding calculate_angle_def Let_def p_def [symmetric] q_def [symmetric]
    by auto
qed

text \<open>
  Claim C6. For all points \<open>a\<close>, \<open>b\<close>, \<open>c\<close>, \<open>calculate_angle a b c\<close> equals
  \<open>calculate_angle c b a\<close>, and the value lies in the interval from 0 to 180. The statement is
  about the function in exact real arithmetic, with \<open>arctan2\<close> the mathematical angle function.
\<close>

theorem calculate_angle_symmetric_bounded:
  "calculate_angle a b c = calculate_angle c b a
   \<and> 0 \<le> calculate_angle a b c \<and> calculate_angle a b c \<le> 180"
proof -
  define p where "p = arctan2 (snd c - snd b) (fst c - fst b)"
  define q where "q = arctan2 (snd a - snd b) (fst a - fst b)"
  have "(q - p) * 180 / pi = - ((p - q) * 180 / pi)"
    by (simp add: field_simps)
  then have "\<bar>(q - p) * 180 / pi\<bar> = \<bar>(p - q) * 180 / pi\<bar>"
    by (simp only: abs_minus_cancel)
  then have "calculate_angle a b c = calculate_angle c b a"
    unfolding calculate_angle_def Let_def p_def [symmetric] q_def [symmetric]
    by simp
  with calculate_angle_range [of a b c] show ?thesis by simp
qed

section \<open>What analyze_landmarks returns\<close>

lemma loop_step:
  "min_elbow_angle_loop (f # rest) m =
     (if 16 < length f then min_elbow_angle_loop rest (min (elbow_angle f) m)
      else min_elbow_angle_loop rest m)"
proof (cases "16 < length f")
  case True
  then have "f \<noteq> []" by auto
  have "(if elbow_angle f < m then elbow_angle f else m) = min (elbow_angle f) m"
    by (simp add: min_def)
  with True \<open>f \<noteq> []\<close> show ?thesis
    by (simp add: getitem_12 getitem_14 getitem_16 Let_def elbow_angle_def)
next
  case False
  then show ?thesis by simp
qed

lemma loop_fold:
  "min_elbow_angle_loop tr m = Inr (fold min (qualifying_angles tr) m)"
proof (induction tr arbitrary: m)
  case Nil
  show ?case by (simp add: qualifying_angles_def)
next
  case (Cons f rest)
  show ?case
    unfolding loop_step using Cons.IH by (simp add: qualifying_angles_def)
qed

lemma fold_min_Min: "fold min xs (m::real) = Min (insert m (set xs))"
proof (induction xs arbitrary: m)
  case Nil show ?case by simp
next
  case (Cons a xs)
  have "Min (insert (min a m) (set xs)) = Min (insert m (insert a (set xs)))"
  proof (cases "set xs = {}")
    case True then show ?thesis by (simp add: min.commute)
  next
    case False
    then show ?thesis
      by (simp add: Min_insert min.assoc min.commute min.left_commute)
  qed
  with Cons show ?case by simp
qed

lemma loop_Min: "min_elbow_angle_loop tr m = Inr (Min (insert m (set (qualifying_angles tr))))"
  by (simp add: loop_fold fold_min_Min)

lemma head_feedback_cases:
  "head_feedback tr =
     Inr (if 1 < length tr \<and> hd tr \<noteq> [] \<and> last tr \<noteq> [] then
            [if \<bar>lm_y (hd (hd tr)) - lm_y (hd (last tr))\<bar> > 0.05 then msg_head_moving
             else msg_head_stable]
          else [])"
proof (cases "1 < length tr")
  case False
  then show ?thesis by (simp add: head_feedback_def)
next
  case True
  then have ne: "tr \<noteq> []" by auto
  show ?thesis
  proof (cases "hd tr = []")
    case True
    with ne \<open>1 < length tr\<close> show ?thesis by (simp add: head_feedback_def getitem_0)
  next
    case f: False
    show ?thesis
    proof (cases "last tr = []")
      case True
      with ne f \<open>1 < length tr\<close> show ?thesis
        by (simp add: head_feedback_def getitem_0 getitem_last)
    next
      case False
      with ne f \<open>1 < length tr\<close> show ?thesis
        by (simp add: head_feedback_def getitem_0 getitem_last Let_def)
    qed
  qed
qed

lemma analyze_landmarks_eq:
  "analyze_landmarks tr =
     Inr (elbow_feedback (Min (insert 180 (set (qualifying_angles tr)))) #
          (if 1 < length tr \<and> hd tr \<noteq> [] \<and> last tr \<noteq> [] then
            [if \<bar>lm_y (hd (hd tr)) - lm_y (hd (last tr))\<bar> > 0.05 then msg_head_moving
             else msg_head_stable]
          else []))"
  by (simp add: analyze_landmarks_def loop_Min head_feedback_cases)

text \<open>The function returns a report for every trace: no index is read out of range.\<close>

lemma analyze_landmarks_total: "\<exists>feedback. analyze_landmarks tr = Inr feedback"
  by (simp add: analyze_landmarks_eq)

lemma no_qualifying_frame_no_elbow:
  "qualifying_angles tr = [] \<Longrightarrow> \<exists>head. analyze_landmarks tr = Inr (msg_no_elbow # head)"
  by (simp add: analyze_landmarks_eq elbow_feedback_def)

text \<open>The branch of line 101 is never taken: no report holds its line.\<close>

lemma msg_no_head_never_emitted:
  assumes "analyze_landmarks tr = Inr feedback"
  shows "msg_no_head \<notin> set feedback"
proof -
  have "msg_no_head \<noteq> elbow_feedback m" for m
    by (simp add: elbow_feedback_def msg_no_head_def msg_bent_def msg_good_extension_def
        msg_no_elbow_def)
  moreover have "msg_no_head \<noteq> msg_head_moving" "msg_no_head \<noteq> msg_head_stable"
    by (simp_all add: msg_no_head_def msg_head_moving_def msg_head_stable_def)
  ultimately show ?thesis
    using assms by (auto simp add: analyze_landmarks_eq split: if_splits)
qed

section \<open>Concrete poses\<close>

lemma calculate_angle_eval:
  assumes "arctan2 (snd c - snd b) (fst c - fst b) = p"
    and "arctan2 (snd a - snd b) (fst a - fst b) = q"
  shows "calculate_angle a b c =
           (if 180 < \<bar>(p - q) * 180 / pi\<bar> then 360 - \<bar>(p - q) * 180 / pi\<bar>
            else \<bar>(p - q) * 180 / pi\<bar>)"
  unfolding calculate_angle_def Let_def assms by simp

lemma angle_straight: "calculate_angle (1/2, 1/4) (1/2, 1/2) (1/2, 3/4) = 180"
proof -
  have a: "arctan2 (snd (1/2, 3/4) - snd (1/2, 1/2)) (fst (1/2, 3/4) - fst (1/2, 1/2)) = pi / 2"
    by (simp add: arctan2_def)
  have b: "arctan2 (snd (1/2, 1/4) - snd (1/2, 1/2)) (fst (1/2, 1/4) - fst (1/2, 1/2)) = - (pi / 2)"
    by (simp add: arctan2_def)
  show ?thesis unfolding calculate_angle_eval [OF a b] by simp
qed

lemma angle_45: "calculate_angle (3/4, 1/2) (1/2, 1/2) (3/4, 3/4) = 45"
proof -
  have a: "arctan2 (snd (3/4, 3/4) - snd (1/2, 1/2)) (fst (3/4, 3/4) - fst (1/2, 1/2)) = pi / 4"
    by (simp add: arctan2_def arctan_one)
  have b: "arctan2 (snd (3/4, 1/2) - snd (1/2, 1/2)) (fst (3/4, 1/2) - fst (1/2, 1/2)) = 0"
    by (simp add: arctan2_def)
  show ?thesis unfolding calculate_angle_eval [OF a b] by simp
qed

lemma qa_straight: "qualifying_angles [straight_pose] = [180]"
  by (simp add: qualifying_angles_def straight_pose_def pose33_def elbow_angle_def lm_def
      angle_straight)

lemma qa_45: "qualifying_angles [bent_pose] = [45]"
  by (simp add: qualifying_angles_def bent_pose_def pose33_def elbow_angle_def lm_def angle_45)

lemma str_45: "str_int (py_int 45) = ''45''"
  by (simp add: py_int_def str_int_def str_nat.simps [of 45] str_nat.simps [of 4] digit_char_def)

section \<open>Claims about analyze_landmarks\<close>

text \<open>
  Claim C1. The claim: a trace of at least 2 frames whose first or last frame is empty gets the
  line "Could not determine head movement"; a trace of fewer than 2 frames gets no head line.
  The code at the input below, a trace of 2 frames whose first frame is empty and whose last
  frame is a full pose with the elbow at 45 degrees: the report is the elbow line alone. The condition of line 88 already asks for both endpoint frames to be
  non-empty, so the \<^verbatim>\<open>else\<close> of line 100 that holds the line is out of reach.
\<close>

theorem empty_endpoint_gets_no_head_line:
  "analyze_landmarks [[], bent_pose] = Inr [msg_bent 45]"
proof -
  have "qualifying_angles [[], bent_pose] = qualifying_angles [bent_pose]"
    by (simp add: qualifying_angles_def)
  then show ?thesis
    by (simp add: analyze_landmarks_eq qa_45 elbow_feedback_def)
qed

text \<open>
  Claim C4. The claim: the line "Could not determine elbow angle" is emitted exactly when no
  frame qualifies. The code at the input below, one frame of 33 landmarks with shoulder, elbow
  and wrist on one vertical line (the arm fully extended): the frame qualifies, its angle is
  180, the running minimum stays at its start value 180, and the line emitted is the
  could-not-determine line.
\<close>

theorem straight_arm_reported_undetermined:
  "qualifying_angles [straight_pose] = [180]
   \<and> analyze_landmarks [straight_pose] = Inr [msg_no_elbow]"
  by (simp add: analyze_landmarks_eq qa_straight elbow_feedback_def)

text \<open>
  Claim C7. For a trace of at least 2 frames whose first and last frames are both non-empty,
  the report is the elbow line followed by one head line: the warning about vertical head
  movement if the absolute difference of the nose (index 0) y-coordinates of the first and the
  last frame exceeds 0.05, and the praise for head stability otherwise, a difference of exactly
  0.05 included. The two lines differ, so the warning is emitted if and only if the difference
  exceeds 0.05.
\<close>

theorem head_metric_threshold:
  assumes "2 \<le> length tr" and "hd tr \<noteq> []" and "last tr \<noteq> []"
  shows "analyze_landmarks tr =
           Inr [elbow_feedback (Min (insert 180 (set (qualifying_angles tr)))),
                if 0.05 < \<bar>lm_y (hd tr ! 0) - lm_y (last tr ! 0)\<bar> then msg_head_moving
                else msg_head_stable]
         \<and> msg_head_moving \<noteq> msg_head_stable"
proof -
  from assms have "1 < length tr" by simp
  moreover have "hd (hd tr) = hd tr ! 0" "hd (last tr) = last tr ! 0"
    using assms by (simp_all add: hd_conv_nth)
  moreover have "msg_head_moving \<noteq> msg_head_stable"
    by (simp add: msg_head_moving_def msg_head_stable_def)
  ultimately show ?thesis using assms by (simp add: analyze_landmarks_eq)
qed

theorem head_metric_threshold_witness:
  "2 \<le> length [[lm (1/2) (3/10)], [], [lm (1/2) (7/20)]] \<and>
   analyze_landmarks [[lm (1/2) (3/10)], [], [lm (1/2) (7/20)]] = Inr [msg_no_elbow, msg_head_stable] \<and>
   analyze_landmarks [[lm (1/2) (3/10)], [lm (1/2) (2/5)]] = Inr [msg_no_elbow, msg_head_moving]"
  using head_metric_threshold [of "[[lm (1/2) (3/10)], [], [lm (1/2) (7/20)]]"]
    head_metric_threshold [of "[[lm (1/2) (3/10)], [lm (1/2) (2/5)]]"]
  by (simp add: qualifying_angles_def elbow_feedback_def lm_def)

text \<open>
  Claim C8. If the minimum elbow angle over the qualifying frames is below 90, the first line
  of the report says that the arm is quite bent and holds the minimum angle truncated to an
  integer, in decimal.
\<close>

theorem bent_arm_line:
  assumes "qualifying_angles tr \<noteq> []" and "Min (set (qualifying_angles tr)) < 90"
  shows "\<exists>head. analyze_landmarks tr =
           Inr ((''Your arm is quite bent. The minimum elbow angle was ''
                 @ str_int (py_int (Min (set (qualifying_angles tr)))) @ [CHR 0xB0]
                 @ ''. Try to keep the arm straighter for more power.'') # head)"
proof -
  let ?S = "set (qualifying_angles tr)"
  from assms(1) have "?S \<noteq> {}" by simp
  then have "Min (insert 180 ?S) = min 180 (Min ?S)" by (simp add: Min_insert)
  with assms(2) have "Min (insert 180 ?S) = Min ?S" by (simp add: min_def)
  with assms(2) show ?thesis
    by (simp add: analyze_landmarks_eq elbow_feedback_def msg_bent_def)
qed

theorem bent_arm_line_witness:
  "qualifying_angles [bent_pose] \<noteq> [] \<and>
   Min (set (qualifying_angles [bent_pose])) < 90 \<and>
   (\<exists>head. analyze_landmarks [bent_pose] =
      Inr ((''Your arm is quite bent. The minimum elbow angle was 45'' @ [CHR 0xB0]
            @ ''. Try to keep the arm straighter for more power.'') # head))"
  using bent_arm_line [of "[bent_pose]"]
  by (simp add: qa_45 str_45)

text \<open>
  Claim C10. A first frame \<open>f\<close> and a last frame \<open>g\<close> with between 1 and 16 landmarks each are
  ignored by the elbow metric, whose line depends on the frames in between only, and yet count
  as non-empty endpoints for the head metric, which reads index 0 of both.
\<close>

theorem partial_frame_thresholds:
  assumes "1 \<le> length f" and "length f \<le> 16" and "1 \<le> length g" and "length g \<le> 16"
  shows "analyze_landmarks (f # mid @ [g]) =
           Inr [elbow_feedback (Min (insert 180 (set (qualifying_angles mid)))),
                if 0.05 < \<bar>lm_y (f ! 0) - lm_y (g ! 0)\<bar> then msg_head_moving else msg_head_stable]"
proof -
  have q: "qualifying_angles (f # mid @ [g]) = qualifying_angles mid"
    using assms by (simp add: qualifying_angles_def)
  have "f \<noteq> []" "g \<noteq> []" using assms by auto
  then show ?thesis
    by (simp add: analyze_landmarks_eq q hd_conv_nth)
qed

theorem partial_frame_thresholds_witness:
  "1 \<le> length [lm (1/2) (1/5)] \<and> length [lm (1/2) (1/5)] \<le> 16 \<and>
   analyze_landmarks ([lm (1/2) (1/5)] # [] @ [[lm (1/2) (2/5)]]) = Inr [msg_no_elbow, msg_head_moving]"
  using partial_frame_thresholds [of "[lm (1/2) (1/5)]" "[lm (1/2) (2/5)]" "[]"]
  by (simp add: qualifying_angles_def elbow_feedback_def lm_def)

section \<open>Timestamps\<close>













section \<open>The response and the capture\<close>





text \<open>
  Claim C9. The claim: the capture is released on every exit path, error paths included. The
  code at the input below, a video of one frame on which the detector raises: the answer is the
  500 body, the file is removed by the \<^verbatim>\<open>finally\<close> clause, and \<^verbatim>\<open>cap.release()\<close>, the
  statement after the loop, has not run.
\<close>

theorem capture_not_released_on_detector_error:
  "analyze_video_endpoint (\<lambda>frame t. Inl (External ''detector failure''))
      \<lparr>opened = True, prop_fps = 30, frames = [0 :: nat]\<rparr>
   = \<lparr>response = Failure 500 (External ''detector failure''), cap_released = False,
      file_removed = True, detector_calls = [0]\<rparr>"
  by (simp add: analyze_video_endpoint_def Let_def effective_fps_def frame_timestamp_ms_def py_int_def)

text \<open>On the path that answers with the success body the capture has been released.\<close>

lemma released_on_success:
  "response (analyze_video_endpoint detect cap) = Success tr fb
     \<Longrightarrow> cap_released (analyze_video_endpoint detect cap)"
  by (auto simp add: analyze_video_endpoint_def Let_def split: sum.splits)

end
